theory Spec2Isabelle
  imports Complex_Main
begin

section \<open>The EcoQuest progression engine\<close>

text \<open>
  The engine is the state of the component \<open>EcoQuestApp\<close> together with its event
  handlers (\<open>captureMonster\<close>, \<open>reportIllegalDumping\<close>, \<open>joinEvent\<close>,
  \<open>inviteFriend\<close>) and its two reactive effects (level recomputation, badge unlock).
  Conventions of the embedding:
  \<^item> JavaScript numbers that hold counts and points are \<open>int\<close>; coordinates and the
    distance and score arithmetic are \<open>real\<close> (the doubles of the source are idealised
    as reals);
  \<^item> the Korean string literals of the source (titles, names, message templates) are
    rendered in ASCII; a notification's message is a value of the datatype \<open>message\<close>,
    one constructor per template of the source, carrying the values interpolated;
  \<^item> the name synthesised for a new hotspot from its coordinates is \<open>Near lat lng\<close>;
  \<^item> \<open>Date.now()\<close> is the parameter \<open>now\<close> of every handler and effect;
  \<^item> fields that only the view reads (\<open>image\<close>, \<open>description\<close>, the location label
    of a monster, the camera flag reset by \<open>setTimeout\<close>) are left out.
\<close>

subsection \<open>Data\<close>

record location =
  lat :: real
  lng :: real

datatype severity = Low | Medium | High

datatype wasteType = Plastic | Paper | Metal | Glass

datatype rarityT = Common | Uncommon | Rare

datatype hotspotName = Named string | Near real real

record hotspot =
  hs_id :: int
  hs_name :: hotspotName
  hs_level :: severity
  lastReport :: string
  hs_lat :: real
  hs_lng :: real
  reportCount :: int

record monster =
  mon_id :: int
  mon_name :: string
  mon_type :: wasteType
  points :: int
  captured :: bool
  mon_lat :: real
  mon_lng :: real
  rarity :: rarityT

datatype message =
    SeedMessage string
  | CaptureMessage string int
  | MissionCompleteMessage string int
  | LevelUpMessage int
  | BadgeMessage string
  | ReportMessage
  | JoinMessage string int
  | InviteMessage

record notification =
  n_id :: int
  n_time :: string
  message :: message
  urgent :: bool
  read :: bool

datatype missionType = Daily | Weekly

record mission =
  mis_id :: int
  title :: string
  mis_type :: missionType
  reward :: int
  completed :: bool
  mis_progress :: int
  mis_total :: int

record badge =
  b_id :: int
  b_name :: string
  b_progress :: int
  b_total :: int
  unlocked :: bool

record event =
  ev_id :: int
  ev_title :: string
  participants :: int
  ev_reward :: int

record state =
  userPoints :: int
  level :: int
  hotspots :: "hotspot list"
  monsters :: "monster list"
  notifications :: "notification list"
  missions :: "mission list"
  badges :: "badge list"
  events :: "event list"

subsection \<open>State setters\<close>

text \<open>
  \<open>useLocalStorage\<close> returns \<open>[storedValue, setValue]\<close> where
  \<^verbatim>\<open>setValue = (value) => { const valueToStore = value instanceof Function ?
  value(storedValue) : value; setStoredValue(valueToStore); ... }\<close>.
  A functional update is therefore applied to \<open>storedValue\<close>, the value of the render
  in which the handler or effect was created, and the result is queued as a plain
  value. Every handler and effect below takes that render's state (the snapshot
  \<open>snap\<close>) and the state being built by the setters called so far (\<open>pend\<close>); a later
  call of the same setter replaces what an earlier one queued.
\<close>

definition setUserPoints :: "(int \<Rightarrow> int) \<Rightarrow> state \<Rightarrow> state \<Rightarrow> state" where
  "setUserPoints f snap pend = pend\<lparr>userPoints := f (userPoints snap)\<rparr>"

definition setNotifications ::
  "(notification list \<Rightarrow> notification list) \<Rightarrow> state \<Rightarrow> state \<Rightarrow> state" where
  "setNotifications f snap pend = pend\<lparr>notifications := f (notifications snap)\<rparr>"

definition setLevel :: "int \<Rightarrow> state \<Rightarrow> state" where
  "setLevel v pend = pend\<lparr>level := v\<rparr>"

definition setHotspots :: "hotspot list \<Rightarrow> state \<Rightarrow> state" where
  "setHotspots v pend = pend\<lparr>hotspots := v\<rparr>"

definition setMonsters :: "monster list \<Rightarrow> state \<Rightarrow> state" where
  "setMonsters v pend = pend\<lparr>monsters := v\<rparr>"

definition setMissions :: "mission list \<Rightarrow> state \<Rightarrow> state" where
  "setMissions v pend = pend\<lparr>missions := v\<rparr>"

definition setBadges :: "badge list \<Rightarrow> state \<Rightarrow> state" where
  "setBadges v pend = pend\<lparr>badges := v\<rparr>"

definition setEvents :: "event list \<Rightarrow> state \<Rightarrow> state" where
  "setEvents v pend = pend\<lparr>events := v\<rparr>"

definition mkNotification :: "int \<Rightarrow> message \<Rightarrow> notification" where
  "mkNotification i msg =
     \<lparr>n_id = i, n_time = ''just now'', message = msg, urgent = False, read = False\<rparr>"

subsection \<open>Distance\<close>

text \<open>\<open>Math.atan2\<close> on the reals (the quadrant rules of the ECMAScript definition).\<close>

definition atan2 :: "real \<Rightarrow> real \<Rightarrow> real" where
  "atan2 y x =
     (if 0 < x then arctan (y / x)
      else if x < 0 then (if 0 \<le> y then arctan (y / x) + pi else arctan (y / x) - pi)
      else if 0 < y then pi / 2
      else if y < 0 then - (pi / 2)
      else 0)"

definition deg2rad :: "real \<Rightarrow> real" where
  "deg2rad deg = deg * (pi / 180)"

definition calculateDistance :: "real \<Rightarrow> real \<Rightarrow> real \<Rightarrow> real \<Rightarrow> real" where
  "calculateDistance lat1 lng1 lat2 lng2 =
     (let R = 6371;
          dLat = deg2rad (lat2 - lat1);
          dLng = deg2rad (lng2 - lng1);
          a = sin (dLat / 2) * sin (dLat / 2) +
              cos (deg2rad lat1) * cos (deg2rad lat2) *
              sin (dLng / 2) * sin (dLng / 2);
          c = 2 * atan2 (sqrt a) (sqrt (1 - a))
      in R * c)"

text \<open>
  \<open>isMonsterNearby\<close> closes over the state variable \<open>userLocation\<close>, which is \<open>null\<close>
  until the geolocation callback has run; it is the first argument here.
\<close>

definition isMonsterNearby :: "location option \<Rightarrow> real \<Rightarrow> real \<Rightarrow> bool" where
  "isMonsterNearby userLoc monsterLat monsterLng =
     (case userLoc of
        None \<Rightarrow> False
      | Some u \<Rightarrow> calculateDistance (lat u) (lng u) monsterLat monsterLng \<le> 0.05)"

subsection \<open>Effects\<close>

text \<open>
  The two \<open>useEffect\<close> blocks of the component. Both list a setter of \<open>useLocalStorage\<close>
  among their dependencies, a function that is new in every render, so both run after
  every commit. \<open>userPoints\<close> is an integer, for which \<open>Math.floor(userPoints / 100)\<close> is
  \<open>userPoints div 100\<close>.
\<close>

definition levelEffect :: "int \<Rightarrow> state \<Rightarrow> state \<Rightarrow> state" where
  "levelEffect now snap pend =
     (let newLevel = userPoints snap div 100 + 1 in
      if newLevel \<noteq> level snap then
        (let p1 = setLevel newLevel pend in
         if newLevel > level snap then
           (let p2 = setNotifications
                       (\<lambda>prev. mkNotification now (LevelUpMessage newLevel) # prev) snap p1
            in setBadges
                 (map (\<lambda>b. if b_id b = 5 then b\<lparr>b_progress := newLevel\<rparr> else b) (badges snap))
                 p2)
         else p1)
      else pend)"

definition unlockable :: "badge \<Rightarrow> bool" where
  "unlockable b = (b_total b \<le> b_progress b \<and> \<not> unlocked b)"

definition badgeCallback :: "int \<Rightarrow> state \<Rightarrow> state \<Rightarrow> badge \<Rightarrow> state" where
  "badgeCallback now snap pend b =
     (if unlockable b then
        setUserPoints (\<lambda>prev. prev + 100) snap
          (setNotifications (\<lambda>prev. mkNotification now (BadgeMessage (b_name b)) # prev) snap pend)
      else pend)"

definition badgeEffect :: "int \<Rightarrow> state \<Rightarrow> state \<Rightarrow> state" where
  "badgeEffect now snap pend =
     (if list_ex unlockable (badges snap) then
        setBadges (map (\<lambda>b. if unlockable b then b\<lparr>unlocked := True\<rparr> else b) (badges snap))
          (foldl (badgeCallback now snap) pend (badges snap))
      else pend)"

text \<open>One commit: both effects run on the state of the render, the level effect first.\<close>

definition runEffects :: "int \<Rightarrow> state \<Rightarrow> state" where
  "runEffects now s = badgeEffect now s (levelEffect now s s)"

definition effectsFire :: "state \<Rightarrow> bool" where
  "effectsFire s = (userPoints s div 100 + 1 \<noteq> level s \<or> list_ex unlockable (badges s))"

definition locked :: "state \<Rightarrow> nat" where
  "locked s = length (filter (\<lambda>b. \<not> unlocked b) (badges s))"

definition stale :: "state \<Rightarrow> nat" where
  "stale s = (if userPoints s div 100 + 1 \<noteq> level s then 1 else 0)"

text \<open>
  Effects run after every commit until a commit changes nothing. A commit in which the
  badge effect fires unlocks a badge; one in which only the level effect fires brings
  \<open>level\<close> up to date without touching the points: the pair (\<open>locked\<close>, \<open>stale\<close>)
  decreases lexicographically.
\<close>

function settle :: "int \<Rightarrow> state \<Rightarrow> state" where
  "settle now s = (if effectsFire s then settle now (runEffects now s) else s)"
  by pat_completeness auto
termination
proof (relation "measures [\<lambda>(now, s). locked s, \<lambda>(now, s). stale s]")
  show "wf (measures [\<lambda>(now, s). locked s, \<lambda>(now, s). stale s])" by simp
next
  fix now s
  assume fire: "effectsFire s"
  let ?unlock = "\<lambda>b. if unlockable b then b\<lparr>unlocked := True\<rparr> else b"
  let ?n = "\<lambda>bs. length (filter (\<lambda>b. \<not> unlocked b) bs)"
  have le: "?n (map ?unlock bs) \<le> ?n bs" for bs
    by (induction bs) (auto simp: unlockable_def)
  have less: "?n (map ?unlock bs) < ?n bs" if "list_ex unlockable bs" for bs
    using that
  proof (induction bs)
    case Nil
    then show ?case by simp
  next
    case (Cons b bs)
    show ?case
    proof (cases "unlockable b")
      case True
      then show ?thesis using le[of bs] by (simp add: unlockable_def)
    next
      case False
      then show ?thesis using Cons by (auto simp: unlockable_def)
    qed
  qed
  show "((now, runEffects now s), (now, s)) \<in>
          measures [\<lambda>(now, s). locked s, \<lambda>(now, s). stale s]"
  proof (cases "list_ex unlockable (badges s)")
    case True
    then show ?thesis
      using less[OF True]
      by (simp add: runEffects_def badgeEffect_def setBadges_def locked_def)
  next
    case False
    have b: "?n (badges (runEffects now s)) = ?n (badges s)"
      using False
      by (simp add: runEffects_def badgeEffect_def levelEffect_def Let_def setLevel_def
          setBadges_def setNotifications_def comp_def)
    have l: "level (runEffects now s) = userPoints s div 100 + 1"
      using False
      by (simp add: runEffects_def badgeEffect_def levelEffect_def Let_def setLevel_def
          setBadges_def setNotifications_def)
    have u: "userPoints (runEffects now s) = userPoints s"
      using False
      by (simp add: runEffects_def badgeEffect_def levelEffect_def Let_def setLevel_def
          setBadges_def setNotifications_def)
    from fire False have "userPoints s div 100 + 1 \<noteq> level s"
      by (simp add: effectsFire_def)
    with b l u show ?thesis
      by (simp add: locked_def stale_def)
  qed
qed

subsection \<open>Mission progress\<close>

text \<open>
  The four handlers carry the same block for their mission (ids 1, 2, 4 and 3): look the
  mission up, and unless it is completed map over the missions, the callback paying the
  reward and queueing the completion notification as it goes. \<open>updateMission k nid\<close> is
  that block for mission \<open>k\<close>, with \<open>nid\<close> the id given to the notification.
\<close>

definition missionCallback :: "int \<Rightarrow> int \<Rightarrow> state \<Rightarrow> state \<Rightarrow> mission \<Rightarrow> state" where
  "missionCallback k nid snap pend mission =
     (if mis_id mission = k then
        (let newProgress = mis_progress mission + 1;
             completed' = (mis_total mission \<le> newProgress)
         in if completed' \<and> \<not> completed mission then
              setNotifications
                (\<lambda>prev. mkNotification nid
                           (MissionCompleteMessage (title mission) (reward mission)) # prev)
                snap
                (setUserPoints (\<lambda>prev. prev + reward mission) snap pend)
            else pend)
      else pend)"

definition missionResult :: "int \<Rightarrow> mission \<Rightarrow> mission" where
  "missionResult k mission =
     (if mis_id mission = k then
        (let newProgress = mis_progress mission + 1;
             completed' = (mis_total mission \<le> newProgress)
         in mission\<lparr>mis_progress := newProgress, completed := completed'\<rparr>)
      else mission)"

definition updateMission :: "int \<Rightarrow> int \<Rightarrow> state \<Rightarrow> state \<Rightarrow> state" where
  "updateMission k nid snap pend =
     (case find (\<lambda>m. mis_id m = k) (missions snap) of
        None \<Rightarrow> pend
      | Some found \<Rightarrow>
          if \<not> completed found then
            setMissions (map (missionResult k) (missions snap))
              (foldl (missionCallback k nid snap) pend (missions snap))
          else pend)"

subsection \<open>Handlers\<close>

definition captureMonster :: "int \<Rightarrow> int \<Rightarrow> state \<Rightarrow> state" where
  "captureMonster now i s =
     (let updatedMonsters =
            map (\<lambda>monster. if mon_id monster = i then monster\<lparr>captured := True\<rparr> else monster)
              (monsters s);
          p0 = setMonsters updatedMonsters s
      in case find (\<lambda>m. mon_id m = i) (monsters s) of
           None \<Rightarrow> p0
         | Some capturedMonster \<Rightarrow>
             (let p1 = setUserPoints (\<lambda>prevPoints. prevPoints + points capturedMonster) s p0;
                  p2 = setNotifications
                         (\<lambda>prev. mkNotification now
                                    (CaptureMessage (mon_name capturedMonster)
                                       (points capturedMonster)) # prev)
                         s p1;
                  p3 = (if mon_type capturedMonster = Plastic then
                          setBadges
                            (map (\<lambda>badge. if b_id badge = 1
                                           then badge\<lparr>b_progress := b_progress badge + 1\<rparr>
                                           else badge)
                               (badges s))
                            p2
                        else p2)
              in if mon_type capturedMonster = Plastic
                 then updateMission 1 (now + 1) s p3
                 else p3))"

definition reportedHotspot :: "hotspot \<Rightarrow> hotspot" where
  "reportedHotspot spot =
     (let newReportCount = reportCount spot + 1;
          newLevel = (if newReportCount > 10 then High
                      else if newReportCount > 5 then Medium
                      else Low)
      in spot\<lparr>lastReport := ''just now'', reportCount := newReportCount, hs_level := newLevel\<rparr>)"

definition newHotspot :: "int \<Rightarrow> location \<Rightarrow> hotspot" where
  "newHotspot now loc =
     \<lparr>hs_id = now, hs_name = Near (lat loc) (lng loc), hs_level = Low,
      lastReport = ''just now'', hs_lat = lat loc, hs_lng = lng loc, reportCount = 1\<rparr>"

definition reportIllegalDumping :: "int \<Rightarrow> location \<Rightarrow> string \<Rightarrow> state \<Rightarrow> bool \<times> state" where
  "reportIllegalDumping now loc description s =
     (let existingHotspot =
            find (\<lambda>spot. calculateDistance (hs_lat spot) (hs_lng spot) (lat loc) (lng loc) < 0.1)
              (hotspots s);
          p0 = (case existingHotspot of
                  Some existing \<Rightarrow>
                    setHotspots
                      (map (\<lambda>spot. if hs_id spot = hs_id existing
                                    then reportedHotspot spot else spot)
                         (hotspots s))
                      s
                | None \<Rightarrow> setHotspots (hotspots s @ [newHotspot now loc]) s);
          p1 = updateMission 2 now s p0;
          p2 = setBadges
                 (map (\<lambda>badge. if b_id badge = 2
                                then badge\<lparr>b_progress := b_progress badge + 1\<rparr>
                                else badge)
                    (badges s))
                 p1;
          p3 = setUserPoints (\<lambda>prev. prev + 50) s p2;
          p4 = setNotifications (\<lambda>prev. mkNotification (now + 1) ReportMessage # prev) s p3
      in (True, p4))"

definition joinEvent :: "int \<Rightarrow> int \<Rightarrow> state \<Rightarrow> state" where
  "joinEvent now eventId s =
     (case find (\<lambda>e. ev_id e = eventId) (events s) of
        None \<Rightarrow> s
      | Some event \<Rightarrow>
          (let p0 = setEvents
                      (map (\<lambda>e. if ev_id e = eventId
                                 then e\<lparr>participants := participants e + 1\<rparr> else e)
                         (events s))
                      s;
               p1 = setNotifications
                      (\<lambda>prev. mkNotification now
                                 (JoinMessage (ev_title event) (ev_reward event)) # prev)
                      s p0;
               p2 = updateMission 4 (now + 1) s p1
           in setBadges
                (map (\<lambda>badge. if b_id badge = 4
                               then badge\<lparr>b_progress := b_progress badge + 1\<rparr>
                               else badge)
                   (badges s))
                p2))"

definition inviteFriend :: "int \<Rightarrow> string \<Rightarrow> state \<Rightarrow> bool \<times> state" where
  "inviteFriend now email s =
     (let p0 = updateMission 3 now s s;
          p1 = setNotifications (\<lambda>prev. mkNotification now InviteMessage # prev) s p0
      in (True, p1))"

subsection \<open>Environment score\<close>

text \<open>\<open>Math.round\<close>: the nearest integer, a half rounded up.\<close>

definition Math_round :: "real \<Rightarrow> int" where
  "Math_round x = \<lfloor>x + 1 / 2\<rfloor>"

definition calculateEnvironmentScore :: "hotspot list \<Rightarrow> monster list \<Rightarrow> int" where
  "calculateEnvironmentScore hs ms =
     (let hotspotSeverity =
            foldl (\<lambda>total spot. if hs_level spot = High then total + 3
                                 else if hs_level spot = Medium then total + 2
                                 else total + 1)
              (0 :: real) hs;
          capturedMonsters = length (filter captured ms);
          totalMonsters = length ms;
          captureRate = (if totalMonsters > 0
                         then real capturedMonsters / real totalMonsters else 0)
      in Math_round ((100 - (hotspotSeverity * 5)) * 0.6 + (captureRate * 100) * 0.4))"

subsection \<open>The seed state\<close>

definition initialState :: state where
  "initialState =
     \<lparr>userPoints = 750,
      level = 750 div 100 + 1,
      hotspots =
        [\<lparr>hs_id = 1, hs_name = Named ''Baebatgol studio-flat entrance'', hs_level = High,
          lastReport = ''10 minutes ago'', hs_lat = 37.602, hs_lng = 127.015, reportCount = 12\<rparr>,
         \<lparr>hs_id = 2, hs_name = Named ''Jeongneung market back alley'', hs_level = Medium,
          lastReport = ''1 hour ago'', hs_lat = 37.603, hs_lng = 127.018, reportCount = 8\<rparr>,
         \<lparr>hs_id = 3, hs_name = Named ''University shopping street'', hs_level = Low,
          lastReport = ''yesterday'', hs_lat = 37.601, hs_lng = 127.013, reportCount = 3\<rparr>,
         \<lparr>hs_id = 4, hs_name = Named ''Jeongneung elementary school'', hs_level = Medium,
          lastReport = ''2 hours ago'', hs_lat = 37.604, hs_lng = 127.017, reportCount = 7\<rparr>],
      monsters =
        [\<lparr>mon_id = 1, mon_name = ''Trash-mon'', mon_type = Plastic, points = 50,
          captured = False, mon_lat = 37.602, mon_lng = 127.015, rarity = Common\<rparr>,
         \<lparr>mon_id = 2, mon_name = ''PET bottle dragon'', mon_type = Plastic, points = 70,
          captured = False, mon_lat = 37.6031, mon_lng = 127.0185, rarity = Rare\<rparr>,
         \<lparr>mon_id = 3, mon_name = ''Paper ghost'', mon_type = Paper, points = 30,
          captured = True, mon_lat = 37.6011, mon_lng = 127.0129, rarity = Common\<rparr>,
         \<lparr>mon_id = 4, mon_name = ''Can golem'', mon_type = Metal, points = 60,
          captured = False, mon_lat = 37.6022, mon_lng = 127.0155, rarity = Uncommon\<rparr>,
         \<lparr>mon_id = 5, mon_name = ''Vinyl vamp'', mon_type = Plastic, points = 45,
          captured = False, mon_lat = 37.604, mon_lng = 127.017, rarity = Common\<rparr>,
         \<lparr>mon_id = 6, mon_name = ''Glass bottle wizard'', mon_type = Glass, points = 80,
          captured = False, mon_lat = 37.605, mon_lng = 127.014, rarity = Rare\<rparr>],
      notifications =
        [\<lparr>n_id = 1, n_time = ''15 minutes ago'', message = SeedMessage ''dumping likely'',
          urgent = True, read = False\<rparr>,
         \<lparr>n_id = 2, n_time = ''1 hour ago'', message = SeedMessage ''new monster'',
          urgent = False, read = False\<rparr>,
         \<lparr>n_id = 3, n_time = ''3 hours ago'', message = SeedMessage ''mission of the day'',
          urgent = False, read = True\<rparr>,
         \<lparr>n_id = 4, n_time = ''yesterday'', message = SeedMessage ''level 7 reached'',
          urgent = False, read = True\<rparr>],
      missions =
        [\<lparr>mis_id = 1, title = ''Capture 3 plastic monsters'', mis_type = Daily, reward = 150,
          completed = False, mis_progress = 1, mis_total = 3\<rparr>,
         \<lparr>mis_id = 2, title = ''Report an illegal dumping hotspot'', mis_type = Daily,
          reward = 100, completed = False, mis_progress = 0, mis_total = 1\<rparr>,
         \<lparr>mis_id = 3, title = ''Invite 3 friends'', mis_type = Weekly, reward = 300,
          completed = False, mis_progress = 1, mis_total = 3\<rparr>,
         \<lparr>mis_id = 4, title = ''Join a community activity'', mis_type = Weekly, reward = 250,
          completed = False, mis_progress = 0, mis_total = 1\<rparr>],
      badges =
        [\<lparr>b_id = 1, b_name = ''Plastic hunter'', b_progress = 4, b_total = 10,
          unlocked = False\<rparr>,
         \<lparr>b_id = 2, b_name = ''Environmental guardian'', b_progress = 3, b_total = 5,
          unlocked = False\<rparr>,
         \<lparr>b_id = 3, b_name = ''Recycling master'', b_progress = 12, b_total = 20,
          unlocked = False\<rparr>,
         \<lparr>b_id = 4, b_name = ''Community star'', b_progress = 7, b_total = 10,
          unlocked = False\<rparr>,
         \<lparr>b_id = 5, b_name = ''Eco hero'', b_progress = 750 div 100 + 1, b_total = 10,
          unlocked = False\<rparr>],
      events =
        [\<lparr>ev_id = 1, ev_title = ''Eco graffiti mural'', participants = 23, ev_reward = 300\<rparr>,
         \<lparr>ev_id = 2, ev_title = ''Upcycling workshop'', participants = 15, ev_reward = 200\<rparr>,
         \<lparr>ev_id = 3, ev_title = ''Jeongneung stream plogging'', participants = 31,
          ev_reward = 250\<rparr>]\<rparr>"

text \<open>
  The coordinates the component falls back to when geolocation fails or is unsupported
  (\<open>setUserLocation({ lat: 37.602, lng: 127.015 })\<close>).
\<close>

definition defaultLocation :: location where
  "defaultLocation = \<lparr>lat = 37.602, lng = 127.015\<rparr>"

subsection \<open>Operations: a handler, then the effects until they settle\<close>

datatype action =
    CaptureMonster int
  | ReportIllegalDumping location string
  | JoinEvent int
  | InviteFriend string

fun handler :: "int \<Rightarrow> action \<Rightarrow> state \<Rightarrow> state" where
  "handler now (CaptureMonster i) s = captureMonster now i s"
| "handler now (ReportIllegalDumping loc d) s = snd (reportIllegalDumping now loc d s)"
| "handler now (JoinEvent e) s = joinEvent now e s"
| "handler now (InviteFriend email) s = snd (inviteFriend now email s)"

definition operation :: "int \<Rightarrow> action \<Rightarrow> state \<Rightarrow> state" where
  "operation now a s = settle now (handler now a s)"

text \<open>A run: the actions in order, each with the clock reading at which it happens.\<close>

fun run :: "(int \<times> action) list \<Rightarrow> state \<Rightarrow> state" where
  "run [] s = s"
| "run ((now, a) # rest) s = run rest (operation now a s)"

subsection \<open>Auxiliary notions for the statements\<close>

text \<open>
  \<open>crosses k m\<close>: the increment of mission \<open>k\<close> takes \<open>m\<close> over its target, the condition
  \<open>completed && !mission.completed\<close> of the callback.
\<close>

definition crosses :: "int \<Rightarrow> mission \<Rightarrow> bool" where
  "crosses k m = (mis_id m = k \<and> mis_total m \<le> mis_progress m + 1 \<and> \<not> completed m)"

text \<open>\<open>missionOpen k ms\<close>: the guard \<open>mission && !mission.completed\<close> on the mission found.\<close>

definition missionOpen :: "int \<Rightarrow> mission list \<Rightarrow> bool" where
  "missionOpen k ms =
     (case find (\<lambda>m. mis_id m = k) ms of None \<Rightarrow> False | Some found \<Rightarrow> \<not> completed found)"

text \<open>
  The invariant of the mission list: ids are unique, progress does not exceed the total,
  and a mission that is not completed is short of its total. \<open>missionStep m m'\<close>: what
  one handler may do to a mission.
\<close>

definition missionBounded :: "mission \<Rightarrow> bool" where
  "missionBounded m = (mis_progress m \<le> mis_total m \<and> (completed m \<or> mis_progress m < mis_total m))"

definition missionsInv :: "mission list \<Rightarrow> bool" where
  "missionsInv ms = (distinct (map mis_id ms) \<and> list_all missionBounded ms)"

definition missionStep :: "mission \<Rightarrow> mission \<Rightarrow> bool" where
  "missionStep m m' =
     (m' = m \<or>
      (\<not> completed m \<and>
       m' = m\<lparr>mis_progress := mis_progress m + 1,
              completed := (mis_total m \<le> mis_progress m + 1)\<rparr>))"

text \<open>The data model's sign conditions: point values and rewards are not negative.\<close>

definition rewardsNonneg :: "state \<Rightarrow> bool" where
  "rewardsNonneg s =
     (list_all (\<lambda>m. 0 \<le> points m) (monsters s) \<and> list_all (\<lambda>m. 0 \<le> reward m) (missions s))"

text \<open>\<open>captureStep m m'\<close>: \<open>m'\<close> is \<open>m\<close>, or \<open>m\<close> with its \<open>captured\<close> flag set.\<close>

definition captureStep :: "monster \<Rightarrow> monster \<Rightarrow> bool" where
  "captureStep m m' = (m' = m \<or> m' = m\<lparr>captured := True\<rparr>)"

text \<open>
  The severity table of the specification, and the invariant that a hotspot's level is
  the table's value at its report count.
\<close>

definition severityOf :: "int \<Rightarrow> severity" where
  "severityOf n = (if n > 10 then High else if n > 5 then Medium else Low)"

definition hotspotOk :: "hotspot \<Rightarrow> bool" where
  "hotspotOk h = (hs_level h = severityOf (reportCount h))"

text \<open>
  Two inputs for the scenarios: a store whose only hotspot has been reported 10 times, and
  a location a quarter of a great circle south of it.
\<close>

definition tenReports :: state where
  "tenReports =
     initialState\<lparr>hotspots :=
       [\<lparr>hs_id = 1, hs_name = Named ''Baebatgol studio-flat entrance'', hs_level = Medium,
         lastReport = ''10 minutes ago'', hs_lat = 37.602, hs_lng = 127.015, reportCount = 10\<rparr>]\<rparr>"

definition farSouth :: location where
  "farSouth = \<lparr>lat = - 52.398, lng = 127.015\<rparr>"

text \<open>
  A report at the fallback location, and the state reached from the seed state by
  capturing monster 1 and reporting once (850 points, level 9, badge 2 at 4 of 5).
\<close>

definition reportNow :: action where
  "reportNow = ReportIllegalDumping defaultLocation ''user report''"

definition beforeLevelTen :: state where
  "beforeLevelTen = run [(0, CaptureMonster 1), (1, reportNow)] initialState"

text \<open>
  The specification's distance: the haversine formula for the great-circle distance on a
  sphere of radius 6371 km, between points given in degrees.
\<close>

definition haversine :: "real \<Rightarrow> real" where
  "haversine \<theta> = (sin (\<theta> / 2))\<^sup>2"

definition haversineDistance :: "real \<Rightarrow> real \<Rightarrow> real \<Rightarrow> real \<Rightarrow> real" where
  "haversineDistance lat1 lng1 lat2 lng2 =
     2 * 6371 *
     arcsin (sqrt (haversine (deg2rad lat2 - deg2rad lat1) +
                   cos (deg2rad lat1) * cos (deg2rad lat2) *
                   haversine (deg2rad lng2 - deg2rad lng1)))"

text \<open>
  The specification's environment score: hotspots weigh 3, 2 or 1 by level, the capture
  rate is the share of captured monsters (0 when there are none).
\<close>

definition severityWeight :: "severity \<Rightarrow> real" where
  "severityWeight l = (case l of High \<Rightarrow> 3 | Medium \<Rightarrow> 2 | Low \<Rightarrow> 1)"

definition hotspotSeverity :: "hotspot list \<Rightarrow> real" where
  "hotspotSeverity hs = (\<Sum>spot\<leftarrow>hs. severityWeight (hs_level spot))"

definition captureRate :: "monster list \<Rightarrow> real" where
  "captureRate ms =
     (if ms = [] then 0 else real (length (filter captured ms)) / real (length ms))"

definition environmentScore :: "hotspot list \<Rightarrow> monster list \<Rightarrow> int" where
  "environmentScore hs ms =
     round ((100 - hotspotSeverity hs * 5) * 0.6 + captureRate ms * 100 * 0.4)"

text \<open>Seven hotspots of level high.\<close>

definition sevenHigh :: "hotspot list" where
  "sevenHigh =
     map (\<lambda>i. \<lparr>hs_id = i, hs_name = Named ''spot'', hs_level = High, lastReport = ''just now'',
               hs_lat = 37.602, hs_lng = 127.015, reportCount = 11\<rparr>) [1, 2, 3, 4, 5, 6, 7]"

section \<open>Properties\<close>

subsection \<open>What a commit of the effects and a mission block compute\<close>

lemma badgeCallback_apply:
  "badgeCallback now snap p b =
     (if unlockable b then
        p\<lparr>notifications := mkNotification now (BadgeMessage (b_name b)) # notifications snap,
          userPoints := userPoints snap + 100\<rparr>
      else p)"
  by (simp add: badgeCallback_def setUserPoints_def setNotifications_def)

lemma foldl_badgeCallback:
  "foldl (badgeCallback now snap) p bs =
     (if list_ex unlockable bs then
        p\<lparr>notifications :=
             mkNotification now (BadgeMessage (b_name (last (filter unlockable bs)))) # notifications snap,
          userPoints := userPoints snap + 100\<rparr>
      else p)"
proof (induction bs arbitrary: p)
  case Nil
  show ?case by simp
next
  case (Cons b bs)
  have "foldl (badgeCallback now snap) p (b # bs) =
        foldl (badgeCallback now snap) (badgeCallback now snap p b) bs"
    by simp
  also have "\<dots> =
     (if list_ex unlockable bs then
        (badgeCallback now snap p b)\<lparr>notifications :=
           mkNotification now (BadgeMessage (b_name (last (filter unlockable bs)))) # notifications snap,
        userPoints := userPoints snap + 100\<rparr>
      else badgeCallback now snap p b)"
    by (rule Cons.IH)
  also have "\<dots> =
     (if list_ex unlockable (b # bs) then
        p\<lparr>notifications :=
           mkNotification now (BadgeMessage (b_name (last (filter unlockable (b # bs))))) #
           notifications snap,
        userPoints := userPoints snap + 100\<rparr>
      else p)"
    by (simp add: badgeCallback_apply list_ex_iff filter_empty_conv)
  finally show ?case .
qed

lemma runEffects_eq:
  "runEffects now s =
     (let newLevel = userPoints s div 100 + 1 in
      if list_ex unlockable (badges s) then
        s\<lparr>level := newLevel,
          notifications :=
            mkNotification now (BadgeMessage (b_name (last (filter unlockable (badges s))))) #
            notifications s,
          userPoints := userPoints s + 100,
          badges := map (\<lambda>b. if unlockable b then b\<lparr>unlocked := True\<rparr> else b) (badges s)\<rparr>
      else if newLevel > level s then
        s\<lparr>level := newLevel,
          notifications := mkNotification now (LevelUpMessage newLevel) # notifications s,
          badges := map (\<lambda>b. if b_id b = 5 then b\<lparr>b_progress := newLevel\<rparr> else b) (badges s)\<rparr>
      else s\<lparr>level := newLevel\<rparr>)"
  by (simp add: runEffects_def badgeEffect_def levelEffect_def foldl_badgeCallback Let_def
      setLevel_def setBadges_def setNotifications_def)

lemma missionCallback_apply:
  "missionCallback k nid snap p m =
     (if crosses k m then
        p\<lparr>userPoints := userPoints snap + reward m,
          notifications :=
            mkNotification nid (MissionCompleteMessage (title m) (reward m)) # notifications snap\<rparr>
      else p)"
  by (simp add: missionCallback_def crosses_def setUserPoints_def setNotifications_def Let_def)

lemma foldl_missionCallback:
  "foldl (missionCallback k nid snap) p ms =
     (if list_ex (crosses k) ms then
        (let m = last (filter (crosses k) ms) in
         p\<lparr>userPoints := userPoints snap + reward m,
           notifications :=
             mkNotification nid (MissionCompleteMessage (title m) (reward m)) # notifications snap\<rparr>)
      else p)"
proof (induction ms arbitrary: p)
  case Nil
  show ?case by simp
next
  case (Cons a ms)
  have "foldl (missionCallback k nid snap) p (a # ms) =
        foldl (missionCallback k nid snap) (missionCallback k nid snap p a) ms"
    by simp
  also have "\<dots> =
     (if list_ex (crosses k) ms then
        (let m = last (filter (crosses k) ms) in
         (missionCallback k nid snap p a)\<lparr>userPoints := userPoints snap + reward m,
           notifications :=
             mkNotification nid (MissionCompleteMessage (title m) (reward m)) # notifications snap\<rparr>)
      else missionCallback k nid snap p a)"
    by (rule Cons.IH)
  also have "\<dots> =
     (if list_ex (crosses k) (a # ms) then
        (let m = last (filter (crosses k) (a # ms)) in
         p\<lparr>userPoints := userPoints snap + reward m,
           notifications :=
             mkNotification nid (MissionCompleteMessage (title m) (reward m)) # notifications snap\<rparr>)
      else p)"
    by (simp add: missionCallback_apply list_ex_iff filter_empty_conv Let_def)
  finally show ?case .
qed

declare settle.simps [simp del]

lemma settle_fire: "effectsFire s \<Longrightarrow> settle now s = settle now (runEffects now s)"
  by (subst settle.simps) simp

lemma settle_quiet: "\<not> effectsFire s \<Longrightarrow> settle now s = s"
  by (subst settle.simps) simp

lemma settle_level: "level (settle now s) = userPoints (settle now s) div 100 + 1"
proof (induction now s rule: settle.induct)
  case (1 now s)
  show ?case
  proof (cases "effectsFire s")
    case True
    then show ?thesis using 1 by (simp add: settle_fire)
  next
    case False
    then show ?thesis by (simp add: settle_quiet effectsFire_def)
  qed
qed

lemma updateMission_eq:
  "updateMission k nid snap p =
     (if missionOpen k (missions snap) then
        (if list_ex (crosses k) (missions snap) then
           (let m = last (filter (crosses k) (missions snap)) in
            p\<lparr>userPoints := userPoints snap + reward m,
              notifications :=
                mkNotification nid (MissionCompleteMessage (title m) (reward m)) #
                notifications snap,
              missions := map (missionResult k) (missions snap)\<rparr>)
         else p\<lparr>missions := map (missionResult k) (missions snap)\<rparr>)
      else p)"
  by (simp add: updateMission_def missionOpen_def foldl_missionCallback setMissions_def Let_def
      split: option.splits)

lemmas setters = setUserPoints_def setNotifications_def setLevel_def setHotspots_def
  setMonsters_def setMissions_def setBadges_def setEvents_def

lemma captureMonster_missions:
  "missions (captureMonster now i s) = missions s \<or>
   (missionOpen 1 (missions s) \<and> missions (captureMonster now i s) = map (missionResult 1) (missions s))"
  by (simp add: captureMonster_def updateMission_eq setters Let_def split: option.splits)

lemma report_missions:
  "missions (snd (reportIllegalDumping now loc d s)) =
     (if missionOpen 2 (missions s) then map (missionResult 2) (missions s) else missions s)"
  by (simp add: reportIllegalDumping_def updateMission_eq setters Let_def split: option.splits)

lemma joinEvent_missions:
  "missions (joinEvent now e s) = missions s \<or>
   (missionOpen 4 (missions s) \<and> missions (joinEvent now e s) = map (missionResult 4) (missions s))"
  by (simp add: joinEvent_def updateMission_eq setters Let_def split: option.splits)

lemma invite_missions:
  "missions (snd (inviteFriend now email s)) =
     (if missionOpen 3 (missions s) then map (missionResult 3) (missions s) else missions s)"
  by (simp add: inviteFriend_def updateMission_eq setters Let_def split: option.splits)

lemma handler_missions:
  "missions (handler now a s) = missions s \<or>
   (\<exists>k. missionOpen k (missions s) \<and> missions (handler now a s) = map (missionResult k) (missions s))"
proof (cases a)
  case (CaptureMonster i)
  then show ?thesis using captureMonster_missions[of now i s] by auto
next
  case (ReportIllegalDumping loc d)
  then show ?thesis using report_missions[of now loc d s] by (auto split: if_splits)
next
  case (JoinEvent e)
  then show ?thesis using joinEvent_missions[of now e s] by auto
next
  case (InviteFriend email)
  then show ?thesis using invite_missions[of now email s] by (auto split: if_splits)
qed

lemma runEffects_missions: "missions (runEffects now s) = missions s"
  by (simp add: runEffects_eq Let_def)

lemma settle_missions: "missions (settle now s) = missions s"
proof (induction now s rule: settle.induct)
  case (1 now s)
  show ?case
  proof (cases "effectsFire s")
    case True
    then show ?thesis using 1 by (simp add: settle_fire runEffects_missions)
  next
    case False
    then show ?thesis by (simp add: settle_quiet)
  qed
qed

lemma last_filter_in: "list_ex P xs \<Longrightarrow> last (filter P xs) \<in> set xs"
proof -
  assume "list_ex P xs"
  then have "filter P xs \<noteq> []" by (simp add: list_ex_iff filter_empty_conv)
  then have "last (filter P xs) \<in> set (filter P xs)" by (rule last_in_set)
  then show ?thesis by simp
qed

lemma captureMonster_points:
  "userPoints (captureMonster now i s) =
     (case find (\<lambda>m. mon_id m = i) (monsters s) of
        None \<Rightarrow> userPoints s
      | Some m \<Rightarrow>
          if mon_type m = Plastic \<and> missionOpen 1 (missions s) \<and> list_ex (crosses 1) (missions s)
          then userPoints s + reward (last (filter (crosses 1) (missions s)))
          else userPoints s + points m)"
  by (simp add: captureMonster_def updateMission_eq setters Let_def split: option.splits)

lemma report_points: "userPoints (snd (reportIllegalDumping now loc d s)) = userPoints s + 50"
  by (simp add: reportIllegalDumping_def setters Let_def)

lemma joinEvent_points:
  "userPoints (joinEvent now e s) =
     (if find (\<lambda>ev. ev_id ev = e) (events s) \<noteq> None \<and> missionOpen 4 (missions s) \<and>
         list_ex (crosses 4) (missions s)
      then userPoints s + reward (last (filter (crosses 4) (missions s)))
      else userPoints s)"
  by (simp add: joinEvent_def updateMission_eq setters Let_def split: option.splits)

lemma invite_points:
  "userPoints (snd (inviteFriend now email s)) =
     (if missionOpen 3 (missions s) \<and> list_ex (crosses 3) (missions s)
      then userPoints s + reward (last (filter (crosses 3) (missions s)))
      else userPoints s)"
  by (simp add: inviteFriend_def updateMission_eq setters Let_def)

lemma handler_points_delta:
  "userPoints (handler now a s) - userPoints s \<in>
     {0, 50} \<union> points ` set (monsters s) \<union> reward ` set (missions s)"
proof (cases a)
  case (CaptureMonster i)
  show ?thesis
  proof (cases "find (\<lambda>m. mon_id m = i) (monsters s)")
    case None
    then show ?thesis by (simp add: CaptureMonster captureMonster_points)
  next
    case (Some m)
    then have "m \<in> set (monsters s)" by (auto simp: find_Some_iff)
    then show ?thesis
      using Some last_filter_in[of "crosses 1" "missions s"]
      by (auto simp: CaptureMonster captureMonster_points)
  qed
next
  case (ReportIllegalDumping loc d)
  then show ?thesis by (simp add: report_points)
next
  case (JoinEvent e)
  then show ?thesis using last_filter_in[of "crosses 4" "missions s"]
    by (auto simp: joinEvent_points)
next
  case (InviteFriend email)
  then show ?thesis using last_filter_in[of "crosses 3" "missions s"]
    by (auto simp: invite_points)
qed

lemma runEffects_points_delta: "userPoints (runEffects now s) - userPoints s \<in> {0, 100}"
  by (simp add: runEffects_eq Let_def)

lemma settle_points: "userPoints s \<le> userPoints (settle now s)"
proof (induction now s rule: settle.induct)
  case (1 now s)
  show ?case
  proof (cases "effectsFire s")
    case True
    have "userPoints s \<le> userPoints (runEffects now s)"
      using runEffects_points_delta[of now s] by auto
    then show ?thesis using 1 True by (simp add: settle_fire)
  next
    case False
    then show ?thesis by (simp add: settle_quiet)
  qed
qed

lemma runEffects_monsters: "monsters (runEffects now s) = monsters s"
  by (simp add: runEffects_eq Let_def)

lemma settle_monsters: "monsters (settle now s) = monsters s"
proof (induction now s rule: settle.induct)
  case (1 now s)
  show ?case
  proof (cases "effectsFire s")
    case True
    then show ?thesis using 1 by (simp add: settle_fire runEffects_monsters)
  next
    case False
    then show ?thesis by (simp add: settle_quiet)
  qed
qed

lemma handler_monsters:
  "monsters (handler now a s) = monsters s \<or>
   (\<exists>i. monsters (handler now a s) =
      map (\<lambda>monster. if mon_id monster = i then monster\<lparr>captured := True\<rparr> else monster)
        (monsters s))"
  by (cases a)
    (auto simp: captureMonster_def reportIllegalDumping_def joinEvent_def inviteFriend_def
      updateMission_eq setters Let_def split: option.splits)

lemma operation_monsters: "monsters (operation now a s) = monsters (handler now a s)"
  by (simp add: operation_def settle_monsters)

lemma calculateDistance_same: "calculateDistance a b a b = 0"
  by (simp add: calculateDistance_def deg2rad_def atan2_def)

lemmas eval_simps = initialState_def defaultLocation_def operation_def reportIllegalDumping_def
  captureMonster_def joinEvent_def inviteFriend_def updateMission_eq crosses_def missionOpen_def
  missionResult_def settle_fire settle_quiet effectsFire_def runEffects_eq unlockable_def setters
  Let_def calculateDistance_same mkNotification_def reportedHotspot_def newHotspot_def

lemma runEffects_hotspots: "hotspots (runEffects now s) = hotspots s"
  by (simp add: runEffects_eq Let_def)

lemma settle_hotspots: "hotspots (settle now s) = hotspots s"
proof (induction now s rule: settle.induct)
  case (1 now s)
  show ?case
  proof (cases "effectsFire s")
    case True
    then show ?thesis using 1 by (simp add: settle_fire runEffects_hotspots)
  next
    case False
    then show ?thesis by (simp add: settle_quiet)
  qed
qed

lemma operation_hotspots: "hotspots (operation now a s) = hotspots (handler now a s)"
  by (simp add: operation_def settle_hotspots)

lemma report_hotspots:
  "hotspots (snd (reportIllegalDumping now loc d s)) =
     (case find (\<lambda>spot. calculateDistance (hs_lat spot) (hs_lng spot) (lat loc) (lng loc) < 0.1)
             (hotspots s) of
        Some existing \<Rightarrow>
          map (\<lambda>spot. if hs_id spot = hs_id existing then reportedHotspot spot else spot) (hotspots s)
      | None \<Rightarrow> hotspots s @ [newHotspot now loc])"
  by (simp add: reportIllegalDumping_def updateMission_eq setters Let_def split: option.splits)

lemma handler_hotspots:
  "hotspots (handler now a s) = hotspots s \<or>
   (\<exists>k. hotspots (handler now a s) =
      map (\<lambda>spot. if hs_id spot = k then reportedHotspot spot else spot) (hotspots s)) \<or>
   (\<exists>loc. hotspots (handler now a s) = hotspots s @ [newHotspot now loc])"
proof (cases a)
  case (CaptureMonster i)
  then show ?thesis
    by (simp add: captureMonster_def updateMission_eq setters Let_def split: option.splits)
next
  case (ReportIllegalDumping loc d)
  then show ?thesis by (auto simp: report_hotspots split: option.splits)
next
  case (JoinEvent e)
  then show ?thesis
    by (simp add: joinEvent_def updateMission_eq setters Let_def split: option.splits)
next
  case (InviteFriend email)
  then show ?thesis
    by (simp add: inviteFriend_def updateMission_eq setters Let_def)
qed

subsection \<open>The level after an operation\<close>

text \<open>
  C3. The seed state has level \<open>floor (points / 100) + 1\<close>, and so has the state after
  every operation of the engine (a handler followed by the effects, the badge unlock
  among them).
\<close>

theorem level_after_operation:
  "level initialState = \<lfloor>real_of_int (userPoints initialState) / 100\<rfloor> + 1 \<and>
   level (operation now a s) = \<lfloor>real_of_int (userPoints (operation now a s)) / 100\<rfloor> + 1"
proof -
  have f: "\<lfloor>real_of_int p / 100\<rfloor> = p div 100" for p
    using floor_divide_of_int_eq [of p 100, where ?'a = real] by simp
  have "level initialState = userPoints initialState div 100 + 1"
    by (simp add: initialState_def)
  moreover have "level (operation now a s) = userPoints (operation now a s) div 100 + 1"
    by (simp add: operation_def settle_level)
  ultimately show ?thesis
    by (simp only: f)
qed

theorem level_after_operation_witness:
  "level initialState = \<lfloor>real_of_int (userPoints initialState) / 100\<rfloor> + 1 \<and>
   level (operation 0 (CaptureMonster 4) initialState) =
   \<lfloor>real_of_int (userPoints (operation 0 (CaptureMonster 4) initialState)) / 100\<rfloor> + 1"
  by (rule level_after_operation)

subsection \<open>Mission progress stays within the total\<close>

lemma missionOpen_found:
  assumes "missionOpen k ms" "distinct (map mis_id ms)" "m \<in> set ms" "mis_id m = k"
  shows "\<not> completed m"
proof -
  from assms(1) obtain found where f: "find (\<lambda>m. mis_id m = k) ms = Some found" "\<not> completed found"
    by (auto simp: missionOpen_def split: option.splits)
  from f(1) have "found \<in> set ms" "mis_id found = k"
    by (auto simp: find_Some_iff)
  with assms(2,3,4) have "found = m"
    by (auto simp: distinct_map dest: inj_onD)
  with f(2) show ?thesis by simp
qed

lemma missionResult_id: "map (mis_id \<circ> missionResult k) ms = map mis_id ms"
  by (induction ms) (simp_all add: missionResult_def Let_def)

lemma missionsInv_result:
  assumes "missionsInv ms" "missionOpen k ms"
  shows "missionsInv (map (missionResult k) ms)"
proof -
  have d: "distinct (map mis_id ms)" and b: "list_all missionBounded ms"
    using assms(1) by (simp_all add: missionsInv_def)
  have "missionBounded (missionResult k m)" if "m \<in> set ms" for m
  proof (cases "mis_id m = k")
    case True
    then have "\<not> completed m" using missionOpen_found[OF assms(2) d that] by simp
    moreover have "missionBounded m" using b that by (simp add: list_all_iff)
    ultimately show ?thesis using True
      by (auto simp: missionBounded_def missionResult_def Let_def)
  next
    case False
    then show ?thesis using b that by (simp add: list_all_iff missionResult_def)
  qed
  then have "list_all missionBounded (map (missionResult k) ms)"
    by (simp add: list_all_iff)
  then show ?thesis using d by (simp add: missionsInv_def missionResult_id)
qed

lemma missionStep_result:
  assumes "distinct (map mis_id ms)" "missionOpen k ms"
  shows "list_all2 missionStep ms (map (missionResult k) ms)"
proof -
  have "missionStep m (missionResult k m)" if "m \<in> set ms" for m
  proof (cases "mis_id m = k")
    case True
    then have "\<not> completed m" using missionOpen_found[OF assms(2,1) that] by simp
    then show ?thesis using True by (simp add: missionStep_def missionResult_def Let_def)
  next
    case False
    then show ?thesis by (simp add: missionStep_def missionResult_def)
  qed
  then show ?thesis by (simp add: list_all2_conv_all_nth)
qed

lemma operation_missions: "missions (operation now a s) = missions (handler now a s)"
  by (simp add: operation_def settle_missions)

lemma missionsInv_operation:
  assumes "missionsInv (missions s)"
  shows "missionsInv (missions (operation now a s))"
  using handler_missions[of now a s] assms
  by (auto simp: operation_missions missionsInv_result)

lemma missionsInv_run: "missionsInv (missions s) \<Longrightarrow> missionsInv (missions (run acts s))"
proof (induction acts arbitrary: s)
  case Nil
  then show ?case by simp
next
  case (Cons x acts)
  obtain now a where x: "x = (now, a)" by (cases x)
  show ?case using Cons.IH[OF missionsInv_operation[OF Cons.prems, of now a]] by (simp add: x)
qed

lemma missionsInv_initial: "missionsInv (missions initialState)"
  by (simp add: initialState_def missionsInv_def missionBounded_def)

text \<open>
  C10. From the seed missions, after any sequence of operations every mission has
  \<open>progress \<le> total\<close>; and one more operation leaves each mission as it is or, if it
  was not completed, adds exactly 1 to its progress and sets \<open>completed\<close> iff the
  progress has reached the total. A badge's progress is not bounded so: three reports
  take badge 2 to 6 of 5.
\<close>

theorem mission_progress_within_total:
  "list_all (\<lambda>m. mis_progress m \<le> mis_total m) (missions (run acts initialState)) \<and>
   list_all2 missionStep (missions (run acts initialState))
     (missions (operation now a (run acts initialState))) \<and>
   list_ex (\<lambda>b. b_total b < b_progress b)
     (badges (run [(0, reportNow), (1, reportNow), (2, reportNow)] initialState))"
proof -
  let ?s = "run acts initialState"
  have inv: "missionsInv (missions ?s)"
    by (rule missionsInv_run[OF missionsInv_initial])
  then have "list_all (\<lambda>m. mis_progress m \<le> mis_total m) (missions ?s)"
    by (simp add: missionsInv_def missionBounded_def list_all_iff)
  moreover have "list_all2 missionStep (missions ?s) (missions (operation now a ?s))"
  proof -
    have d: "distinct (map mis_id (missions ?s))" using inv by (simp add: missionsInv_def)
    have refl: "list_all2 missionStep (missions ?s) (missions ?s)"
      by (simp add: list_all2_conv_all_nth missionStep_def)
    from handler_missions[of now a ?s] show ?thesis
      using refl missionStep_result[OF d] by (auto simp: operation_missions)
  qed
  moreover have "list_ex (\<lambda>b. b_total b < b_progress b)
     (badges (run [(0, reportNow), (1, reportNow), (2, reportNow)] initialState))"
    by (simp add: eval_simps reportNow_def)
  ultimately show ?thesis by simp
qed

theorem mission_progress_within_total_witness:
  "list_all (\<lambda>m. mis_progress m \<le> mis_total m)
     (missions (run [(0, CaptureMonster 1), (1, InviteFriend ''a@b.c'')] initialState)) \<and>
   list_all2 missionStep
     (missions (run [(0, CaptureMonster 1), (1, InviteFriend ''a@b.c'')] initialState))
     (missions (operation 2 (CaptureMonster 2)
        (run [(0, CaptureMonster 1), (1, InviteFriend ''a@b.c'')] initialState))) \<and>
   list_ex (\<lambda>b. b_total b < b_progress b)
     (badges (run [(0, reportNow), (1, reportNow), (2, reportNow)] initialState))"
  by (rule mission_progress_within_total)

subsection \<open>Points never decrease\<close>

lemma handler_points:
  assumes "rewardsNonneg s"
  shows "userPoints s \<le> userPoints (handler now a s)"
proof -
  from handler_points_delta[of now a s]
  have "0 \<le> userPoints (handler now a s) - userPoints s"
    using assms by (auto simp: rewardsNonneg_def list_all_iff)
  then show ?thesis by simp
qed

lemma rewardsNonneg_operation:
  assumes "rewardsNonneg s"
  shows "rewardsNonneg (operation now a s)"
proof -
  have "list_all (\<lambda>m. 0 \<le> points m) (monsters (operation now a s))"
    using handler_monsters[of now a s] assms
    by (auto simp: operation_monsters rewardsNonneg_def list_all_iff)
  moreover have "list_all (\<lambda>m. 0 \<le> reward m) (missions (operation now a s))"
    using handler_missions[of now a s] assms
    by (auto simp: operation_missions rewardsNonneg_def list_all_iff missionResult_def Let_def)
  ultimately show ?thesis by (simp add: rewardsNonneg_def)
qed

lemma operation_points:
  assumes "rewardsNonneg s"
  shows "userPoints s \<le> userPoints (operation now a s)"
  using handler_points[OF assms, of now a] settle_points[of "handler now a s" now]
  by (simp add: operation_def)

lemma run_points: "rewardsNonneg s \<Longrightarrow> userPoints s \<le> userPoints (run acts s)"
proof (induction acts arbitrary: s)
  case Nil
  show ?case by simp
next
  case (Cons x acts)
  obtain now a where x: "x = (now, a)" by (cases x)
  have "userPoints s \<le> userPoints (operation now a s)"
    by (rule operation_points[OF Cons.prems])
  also have "\<dots> \<le> userPoints (run acts (operation now a s))"
    by (rule Cons.IH[OF rewardsNonneg_operation[OF Cons.prems]])
  finally show ?case by (simp add: x)
qed

lemma rewardsNonneg_initial: "rewardsNonneg initialState"
  by (simp add: rewardsNonneg_def initialState_def)

text \<open>
  C9. With point values and rewards that are not negative, the points after any sequence
  of operations are at least the points before. What a handler adds is 0, the 50 of a
  report, a monster's point value or a mission's reward; what a commit of the effects adds
  is 0 or the 100 of a badge; none of these amounts is negative.
\<close>

theorem points_never_decrease:
  assumes "rewardsNonneg s"
  shows "userPoints s \<le> userPoints (run acts s) \<and>
         userPoints (handler now a s) - userPoints s \<in>
           {0, 50} \<union> points ` set (monsters s) \<union> reward ` set (missions s) \<and>
         userPoints (runEffects now s) - userPoints s \<in> {0, 100} \<and>
         (\<forall>d \<in> {0, 50, 100} \<union> points ` set (monsters s) \<union> reward ` set (missions s). 0 \<le> d)"
  using run_points[OF assms] handler_points_delta runEffects_points_delta assms
  by (auto simp: rewardsNonneg_def list_all_iff)

theorem points_never_decrease_witness:
  "rewardsNonneg initialState \<and>
   userPoints initialState \<le>
     userPoints (run [(0, CaptureMonster 1), (1, ReportIllegalDumping defaultLocation ''report''),
                      (2, JoinEvent 1), (3, InviteFriend ''a@b.c'')] initialState)"
  using points_never_decrease [OF rewardsNonneg_initial,
      of "[(0, CaptureMonster 1), (1, ReportIllegalDumping defaultLocation ''report''),
           (2, JoinEvent 1), (3, InviteFriend ''a@b.c'')]"]
    rewardsNonneg_initial
  by simp

subsection \<open>Reporting illegal dumping\<close>

text \<open>
  C5, amended. \<open>reportIllegalDumping\<close> returns \<open>true\<close> and, whether a hotspot was
  matched or created, adds exactly 50 to the points, adds 1 to the progress of badge 2
  (unlocked or not) and puts the report confirmation at the head of the notifications.
  The progress of mission 2 grows by 1 only while the mission found is not completed
  (\<open>completed\<close> is then set iff the progress has reached the total); a completed
  mission is left as it is.
\<close>

theorem report_effects:
  "fst (reportIllegalDumping now loc d s) = True \<and>
   userPoints (snd (reportIllegalDumping now loc d s)) = userPoints s + 50 \<and>
   badges (snd (reportIllegalDumping now loc d s)) =
     map (\<lambda>b. if b_id b = 2 then b\<lparr>b_progress := b_progress b + 1\<rparr> else b) (badges s) \<and>
   notifications (snd (reportIllegalDumping now loc d s)) =
     mkNotification (now + 1) ReportMessage # notifications s \<and>
   missions (snd (reportIllegalDumping now loc d s)) =
     (if missionOpen 2 (missions s)
      then map (\<lambda>m. if mis_id m = 2
                     then m\<lparr>mis_progress := mis_progress m + 1,
                            completed := (mis_total m \<le> mis_progress m + 1)\<rparr>
                     else m) (missions s)
      else missions s)"
  by (simp add: reportIllegalDumping_def updateMission_eq setters Let_def missionResult_def
      split: option.splits)

theorem report_effects_witness:
  "userPoints (snd (reportIllegalDumping 0 defaultLocation ''report'' initialState)) = 800 \<and>
   map b_progress (badges (snd (reportIllegalDumping 0 defaultLocation ''report'' initialState)))
     = [4, 4, 12, 7, 8] \<and>
   map mis_progress (missions (snd (reportIllegalDumping 0 defaultLocation ''report'' initialState)))
     = [1, 1, 1, 0] \<and>
   map completed (missions (snd (reportIllegalDumping 0 defaultLocation ''report'' initialState)))
     = [False, True, False, False]"
  using report_effects [of 0 defaultLocation "''report''" initialState]
  by (simp add: initialState_def missionOpen_def)

text \<open>
  The claim as stated fails: the first report completes mission 2 at progress 1, and the
  second report does not increment it.
\<close>

theorem report_completed_mission_counterexample:
  "map mis_progress
     (missions (run [(0, ReportIllegalDumping defaultLocation ''report'')] initialState))
     = [1, 1, 1, 0] \<and>
   map mis_progress
     (missions (run [(0, ReportIllegalDumping defaultLocation ''report''),
                     (1, ReportIllegalDumping defaultLocation ''report'')] initialState))
     = [1, 1, 1, 0]"
  by (simp add: eval_simps)

subsection \<open>Capturing a monster\<close>

lemma captureStep_refl: "list_all2 captureStep ms ms"
  by (simp add: list_all2_conv_all_nth captureStep_def)

lemma captureStep_trans:
  assumes "list_all2 captureStep xs ys" "list_all2 captureStep ys zs"
  shows "list_all2 captureStep xs zs"
proof -
  have "captureStep x z" if "captureStep x y" "captureStep y z" for x y z
    using that by (auto simp: captureStep_def)
  then show ?thesis using assms by (auto simp: list_all2_conv_all_nth) 
qed

lemma captureStep_handler: "list_all2 captureStep (monsters s) (monsters (handler now a s))"
proof -
  have "list_all2 captureStep ms
          (map (\<lambda>monster. if mon_id monster = i then monster\<lparr>captured := True\<rparr> else monster) ms)"
    for ms i
    by (simp add: list_all2_conv_all_nth captureStep_def)
  then show ?thesis
    using handler_monsters[of now a s] captureStep_refl by auto
qed

lemma captureStep_run: "list_all2 captureStep (monsters s) (monsters (run acts s))"
proof (induction acts arbitrary: s)
  case Nil
  show ?case by (simp add: captureStep_refl)
next
  case (Cons x acts)
  obtain now a where x: "x = (now, a)" by (cases x)
  have "list_all2 captureStep (monsters s) (monsters (operation now a s))"
    using captureStep_handler[of s now a] by (simp add: operation_monsters)
  then show ?case
    using Cons.IH[of "operation now a s"] by (simp add: x captureStep_trans)
qed

lemma captureMonster_absent:
  assumes "find (\<lambda>m. mon_id m = i) (monsters s) = None"
  shows "captureMonster now i s = s"
proof -
  from assms have "\<forall>m \<in> set (monsters s). mon_id m \<noteq> i"
    by (simp add: find_None_iff)
  then have "map (\<lambda>monster. if mon_id monster = i then monster\<lparr>captured := True\<rparr> else monster)
               (monsters s) = monsters s"
    by (simp add: map_idI)
  then show ?thesis using assms
    by (simp add: captureMonster_def setters Let_def)
qed

text \<open>
  C1, amended. \<open>captureMonster\<close> is total. On an id that no monster has it returns the
  state unchanged. On an id found it sets the \<open>captured\<close> flag of the monsters with that id
  and, unless the same call completes the plastic mission, adds the point value of the
  monster found to the points; it does not look at the flag, so this holds whether or not
  the monster was captured before. Over any sequence of operations a monster changes in
  nothing but its flag, and the flag is only ever set: it goes from false to true at most
  once.
\<close>

theorem captureMonster_effects:
  "(find (\<lambda>m. mon_id m = i) (monsters s) = None \<longrightarrow> captureMonster now i s = s) \<and>
   (\<forall>m. find (\<lambda>m. mon_id m = i) (monsters s) = Some m \<and>
        \<not> (mon_type m = Plastic \<and> missionOpen 1 (missions s) \<and> list_ex (crosses 1) (missions s))
        \<longrightarrow> userPoints (captureMonster now i s) = userPoints s + points m) \<and>
   monsters (captureMonster now i s) =
     map (\<lambda>monster. if mon_id monster = i then monster\<lparr>captured := True\<rparr> else monster)
       (monsters s) \<and>
   list_all2 captureStep (monsters s) (monsters (run acts s))"
proof -
  have "monsters (captureMonster now i s) =
     map (\<lambda>monster. if mon_id monster = i then monster\<lparr>captured := True\<rparr> else monster)
       (monsters s)"
    by (simp add: captureMonster_def updateMission_eq setters Let_def split: option.splits)
  then show ?thesis
    using captureMonster_absent[of i s now] captureStep_run[of s acts]
    by (auto simp: captureMonster_points)
qed

theorem captureMonster_effects_witness:
  "captureMonster 0 99 initialState = initialState \<and>
   userPoints (captureMonster 0 4 initialState) = 810 \<and>
   map captured (monsters (captureMonster 0 4 initialState)) = [False, False, True, True, False, False] \<and>
   list_all2 captureStep (monsters initialState)
     (monsters (run [(0, CaptureMonster 4), (1, CaptureMonster 4)] initialState))"
  using captureMonster_effects [of 99 initialState 0 "[(0, CaptureMonster 4), (1, CaptureMonster 4)]"]
    captureMonster_effects [of 4 initialState 0 "[]"]
  by (simp add: initialState_def)

text \<open>
  The claim as stated fails: monster 3 is captured in the seed state, and capturing it
  again adds its 30 points and a capture notification.
\<close>

theorem captureMonster_already_captured_counterexample:
  "mon_id (monsters initialState ! 2) = 3 \<and> captured (monsters initialState ! 2) \<and>
   userPoints initialState = 750 \<and>
   userPoints (captureMonster 0 3 initialState) = 780 \<and>
   map message (notifications (captureMonster 0 3 initialState)) =
     CaptureMessage ''Paper ghost'' 30 # map message (notifications initialState)"
  by (simp add: eval_simps)

subsection \<open>The hotspot store\<close>

lemma reportedHotspot_eq:
  "reportedHotspot spot =
     spot\<lparr>lastReport := ''just now'', reportCount := reportCount spot + 1,
          hs_level := severityOf (reportCount spot + 1)\<rparr>"
  by (simp add: reportedHotspot_def severityOf_def Let_def)

lemma hotspotOk_handler:
  assumes "list_all hotspotOk (hotspots s)"
  shows "list_all hotspotOk (hotspots (handler now a s))"
  using handler_hotspots[of now a s] assms
  by (auto simp: list_all_iff hotspotOk_def reportedHotspot_eq newHotspot_def severityOf_def)

lemma hotspotOk_run:
  "list_all hotspotOk (hotspots s) \<Longrightarrow> list_all hotspotOk (hotspots (run acts s))"
proof (induction acts arbitrary: s)
  case Nil
  then show ?case by simp
next
  case (Cons x acts)
  obtain now a where x: "x = (now, a)" by (cases x)
  have "list_all hotspotOk (hotspots (operation now a s))"
    using hotspotOk_handler[OF Cons.prems, of now a] by (simp add: operation_hotspots)
  then show ?case using Cons.IH by (simp add: x)
qed

lemma hotspotOk_initial: "list_all hotspotOk (hotspots initialState)"
  by (simp add: initialState_def hotspotOk_def severityOf_def)

lemma reportedHotspot_id: "(hs_id \<circ> (\<lambda>spot. if hs_id spot = k then reportedHotspot spot else spot)) = hs_id"
  by (auto simp: reportedHotspot_eq)

lemma hotspots_kept:
  "map hs_id (take (length (hotspots s)) (hotspots (operation now a s))) = map hs_id (hotspots s)"
  using handler_hotspots[of now a s]
  by (auto simp: operation_hotspots reportedHotspot_id)

lemma calculateDistance_quarter:
  assumes d: "lat2 - lat1 = - 90"
  shows "calculateDistance lat1 lng0 lat2 lng0 = 6371 * (pi / 2)"
proof -
  have s: "sin (pi / 4) * sin (pi / 4) = 1 / 2"
    by (simp add: sin_45)
  have h: "deg2rad (lat2 - lat1) / 2 = - (pi / 4)"
    by (simp add: d deg2rad_def)
  have a: "sin (deg2rad (lat2 - lat1) / 2) * sin (deg2rad (lat2 - lat1) / 2) +
           cos (deg2rad lat1) * cos (deg2rad lat2) *
           sin (deg2rad (lng0 - lng0) / 2) * sin (deg2rad (lng0 - lng0) / 2) = 1 / 2"
    unfolding h using s by (simp add: deg2rad_def)
  have c: "atan2 (sqrt (1 / 2)) (sqrt (1 - 1 / 2)) = pi / 4"
    by (simp add: atan2_def arctan_one)
  show ?thesis
    unfolding calculateDistance_def Let_def a c by simp
qed

lemma far: "\<not> calculateDistance 37.602 127.015 (- 52.398) 127.015 < 0.1"
proof -
  have "calculateDistance 37.602 127.015 (- 52.398) 127.015 = 6371 * (pi / 2)"
    by (rule calculateDistance_quarter) simp
  moreover have "(1::real) \<le> 6371 * (pi / 2)"
    using pi_ge_two by simp
  ultimately show ?thesis by simp
qed

text \<open>
  C6. After any sequence of operations from the seed state every hotspot's level is the
  table's value at its report count (high above 10, medium above 5, low otherwise). No
  operation deletes a hotspot: the hotspots of the state keep their places and ids. A
  report for which the lookup (distance below 0.1 km, first match in stored order) finds a
  hotspot adds exactly 1 to the report count of the hotspots with the id found and
  recomputes their level by the table; a report for which it finds none appends a hotspot
  at the reported coordinates with report count 1 and level low.
\<close>

theorem hotspot_store:
  "list_all hotspotOk (hotspots (run acts initialState)) \<and>
   map hs_id (take (length (hotspots s)) (hotspots (operation now a s))) = map hs_id (hotspots s) \<and>
   (\<forall>h. find (\<lambda>spot. calculateDistance (hs_lat spot) (hs_lng spot) (lat loc) (lng loc) < 0.1)
          (hotspots s) = Some h \<longrightarrow>
        hotspots (snd (reportIllegalDumping now loc d s)) =
          map (\<lambda>spot. if hs_id spot = hs_id h
                       then spot\<lparr>lastReport := ''just now'', reportCount := reportCount spot + 1,
                                 hs_level := severityOf (reportCount spot + 1)\<rparr>
                       else spot) (hotspots s)) \<and>
   (find (\<lambda>spot. calculateDistance (hs_lat spot) (hs_lng spot) (lat loc) (lng loc) < 0.1)
      (hotspots s) = None \<longrightarrow>
        (\<exists>h. hotspots (snd (reportIllegalDumping now loc d s)) = hotspots s @ [h] \<and>
             reportCount h = 1 \<and> hs_level h = Low \<and> hs_lat h = lat loc \<and> hs_lng h = lng loc))"
proof -
  have "list_all hotspotOk (hotspots (run acts initialState))"
    by (rule hotspotOk_run[OF hotspotOk_initial])
  then show ?thesis
    using hotspots_kept[of s now a]
    by (auto simp: report_hotspots reportedHotspot_eq newHotspot_def)
qed

text \<open>
  The scenarios: a hotspot at report count 10 (medium) goes to 11 and high; a report a
  quarter of a great circle away creates a hotspot.
\<close>

theorem hotspot_store_witness:
  "list_all hotspotOk (hotspots (run [(0, ReportIllegalDumping defaultLocation ''report'')] initialState)) \<and>
   map reportCount (hotspots (snd (reportIllegalDumping 0 defaultLocation ''report'' tenReports))) = [11] \<and>
   map hs_level (hotspots (snd (reportIllegalDumping 0 defaultLocation ''report'' tenReports))) = [High] \<and>
   (\<exists>h. hotspots (snd (reportIllegalDumping 0 farSouth ''report'' tenReports)) =
          hotspots tenReports @ [h] \<and> reportCount h = 1 \<and> hs_level h = Low)"
proof -
  note t1 = hotspot_store [of "[(0, ReportIllegalDumping defaultLocation ''report'')]"
      tenReports 0 "CaptureMonster 1" defaultLocation "''report''"]
  note t2 = hotspot_store [of "[]" tenReports 0 "CaptureMonster 1" farSouth "''report''"]
  have f1: "find (\<lambda>spot. calculateDistance (hs_lat spot) (hs_lng spot)
                   (lat defaultLocation) (lng defaultLocation) < 0.1) (hotspots tenReports)
            = Some (hd (hotspots tenReports))"
    by (simp add: tenReports_def defaultLocation_def calculateDistance_same)
  have f2: "find (\<lambda>spot. calculateDistance (hs_lat spot) (hs_lng spot)
                   (lat farSouth) (lng farSouth) < 0.1) (hotspots tenReports) = None"
    using far by (simp add: tenReports_def farSouth_def)
  from t1 f1 have "hotspots (snd (reportIllegalDumping 0 defaultLocation ''report'' tenReports)) =
          map (\<lambda>spot. if hs_id spot = hs_id (hd (hotspots tenReports))
                       then spot\<lparr>lastReport := ''just now'', reportCount := reportCount spot + 1,
                                 hs_level := severityOf (reportCount spot + 1)\<rparr>
                       else spot) (hotspots tenReports)"
    by blast
  then have a: "map reportCount (hotspots (snd (reportIllegalDumping 0 defaultLocation ''report'' tenReports))) = [11] \<and>
   map hs_level (hotspots (snd (reportIllegalDumping 0 defaultLocation ''report'' tenReports))) = [High]"
    by (simp add: tenReports_def severityOf_def)
  from t2 f2 have b: "\<exists>h. hotspots (snd (reportIllegalDumping 0 farSouth ''report'' tenReports)) =
          hotspots tenReports @ [h] \<and> reportCount h = 1 \<and> hs_level h = Low"
    by blast
  from t1 have c: "list_all hotspotOk (hotspots (run [(0, ReportIllegalDumping defaultLocation ''report'')] initialState))"
    by blast
  from a b c show ?thesis by blast
qed

subsection \<open>What a crossing pays\<close>

text \<open>
  C2. On the seed state mission 2 (reward 100) is one report short of its total. The
  report completes it, but the points go from 750 to 800 and no completion notification
  is queued: the handler's later \<open>setUserPoints(prev => prev + 50)\<close> and
  \<open>setNotifications\<close> are computed from the same stored values as the callback's and
  replace them.
\<close>

theorem mission_reward_lost_on_report:
  "crosses 2 (missions initialState ! 1) \<and> reward (missions initialState ! 1) = 100 \<and>
   userPoints initialState = 750 \<and>
   userPoints (handler 0 reportNow initialState) = 800 \<and>
   map completed (missions (handler 0 reportNow initialState)) = [False, True, False, False] \<and>
   map message (notifications (handler 0 reportNow initialState)) =
     ReportMessage # map message (notifications initialState) \<and>
   userPoints (operation 0 reportNow initialState) = 800 \<and>
   map message (notifications (operation 0 reportNow initialState)) =
     LevelUpMessage 9 # ReportMessage # map message (notifications initialState)"
  by (simp add: eval_simps reportNow_def)

subsection \<open>Level-up\<close>

text \<open>
  C4. With points going from 99 to 100 at level 1 the level effect sets the level to 2,
  queues the level-up notification and overwrites the progress of badge 5 with 2. When
  the same commit unlocks a badge the level effect's notification and badge update are
  replaced by the badge effect's: in \<open>beforeLevelTen\<close> a report takes the points from 850
  to 900 and badge 2 to its total; the level becomes 10, no notification for level 10 is
  queued and badge 5 stays at progress 9 until the next level-up.
\<close>

theorem level_up_lost_with_badge_unlock:
  "userPoints beforeLevelTen = 850 \<and> level beforeLevelTen = 9 \<and>
   map b_progress (badges beforeLevelTen) = [5, 4, 12, 7, 9] \<and>
   userPoints (handler 2 reportNow beforeLevelTen) = 900 \<and>
   level (runEffects 2 (handler 2 reportNow beforeLevelTen)) = 10 \<and>
   map message (notifications (runEffects 2 (handler 2 reportNow beforeLevelTen))) =
     BadgeMessage ''Environmental guardian'' #
     map message (notifications (handler 2 reportNow beforeLevelTen)) \<and>
   map b_progress (badges (runEffects 2 (handler 2 reportNow beforeLevelTen))) = [5, 5, 12, 7, 9] \<and>
   map message (notifications (operation 2 reportNow beforeLevelTen)) =
     [LevelUpMessage 12, BadgeMessage ''Eco hero'', LevelUpMessage 11,
      BadgeMessage ''Environmental guardian'', ReportMessage] @
     map message (notifications beforeLevelTen) \<and>
   level (runEffects 0 (initialState\<lparr>userPoints := 100, level := 1\<rparr>)) = 2 \<and>
   map message (notifications (runEffects 0 (initialState\<lparr>userPoints := 100, level := 1\<rparr>))) =
     LevelUpMessage 2 # map message (notifications initialState) \<and>
   map b_progress (badges (runEffects 0 (initialState\<lparr>userPoints := 100, level := 1\<rparr>))) =
     [4, 3, 12, 7, 2]"
  by (simp add: eval_simps reportNow_def beforeLevelTen_def)

subsection \<open>Proximity\<close>

lemma atan2_arcsin:
  assumes "0 \<le> a" "a \<le> 1"
  shows "atan2 (sqrt a) (sqrt (1 - a)) = arcsin (sqrt a)"
proof (cases "a = 1")
  case True
  then show ?thesis by (simp add: atan2_def)
next
  case False
  with assms have lt: "a < 1" by simp
  then have pos: "0 < sqrt (1 - a)" by simp
  have x: "- 1 < sqrt a" "sqrt a < 1"
    using assms lt by (simp_all add: less_le_trans[of "-1" 0])
  have "(sqrt a)\<^sup>2 = a" using assms by simp
  then have "arcsin (sqrt a) = arctan (sqrt a / sqrt (1 - a))"
    using arcsin_arctan[OF x] by simp
  then show ?thesis using pos by (simp add: atan2_def)
qed

lemma abs_mult_le_half_squares: "\<bar>x * y\<bar> \<le> (x\<^sup>2 + y\<^sup>2) / 2" for x y :: real
proof -
  have "0 \<le> (\<bar>x\<bar> - \<bar>y\<bar>)\<^sup>2" by simp
  also have "(\<bar>x\<bar> - \<bar>y\<bar>)\<^sup>2 = x\<^sup>2 + y\<^sup>2 - 2 * \<bar>x * y\<bar>"
    by (simp add: power2_diff abs_mult)
  finally show ?thesis by simp
qed

lemma haversine_arg_bounds:
  fixes p1 p2 e :: real
  defines "a \<equiv> sin ((p2 - p1) / 2) * sin ((p2 - p1) / 2) +
                 cos p1 * cos p2 * sin (e / 2) * sin (e / 2)"
  shows "0 \<le> a \<and> a \<le> 1"
proof -
  define t where "t = 1 - 2 * (sin (e / 2))\<^sup>2"
  have t: "\<bar>t\<bar> \<le> 1"
  proof -
    have "0 \<le> (sin (e / 2))\<^sup>2" "(sin (e / 2))\<^sup>2 \<le> 1"
      by (simp_all add: abs_square_le_1)
    then show ?thesis unfolding t_def by (simp add: abs_le_iff)
  qed
  have cd: "cos (p2 - p1) = 1 - 2 * (sin ((p2 - p1) / 2))\<^sup>2"
  proof -
    have "2 * ((p2 - p1) / 2) = p2 - p1" by simp
    then show ?thesis using cos_double_sin[of "(p2 - p1) / 2"] by (simp only:)
  qed
  have "2 * a = 2 * (sin ((p2 - p1) / 2))\<^sup>2 + cos p1 * cos p2 * (2 * (sin (e / 2))\<^sup>2)"
    by (simp add: a_def power2_eq_square algebra_simps)
  also have "\<dots> = (1 - cos (p2 - p1)) + cos p1 * cos p2 * (1 - t)"
    by (simp add: cd t_def)
  also have "\<dots> = 1 - (sin p1 * sin p2 + cos p1 * cos p2 * t)"
    by (simp add: cos_diff algebra_simps)
  finally have a2: "2 * a = 1 - (sin p1 * sin p2 + cos p1 * cos p2 * t)" .
  have "\<bar>sin p1 * sin p2 + cos p1 * cos p2 * t\<bar> \<le> \<bar>sin p1 * sin p2\<bar> + \<bar>cos p1 * cos p2\<bar> * \<bar>t\<bar>"
    using abs_triangle_ineq[of "sin p1 * sin p2" "cos p1 * cos p2 * t"] by (simp add: abs_mult)
  also have "\<dots> \<le> \<bar>sin p1 * sin p2\<bar> + \<bar>cos p1 * cos p2\<bar>"
    using t mult_left_le[of "\<bar>t\<bar>" "\<bar>cos p1 * cos p2\<bar>"] by simp
  also have "\<dots> \<le> ((sin p1)\<^sup>2 + (sin p2)\<^sup>2) / 2 + ((cos p1)\<^sup>2 + (cos p2)\<^sup>2) / 2"
    by (intro add_mono abs_mult_le_half_squares)
  also have "\<dots> = 1"
    by (simp add: cos_squared_eq field_simps)
  finally have "\<bar>sin p1 * sin p2 + cos p1 * cos p2 * t\<bar> \<le> 1" .
  with a2 show ?thesis by (simp add: abs_le_iff)
qed

lemma calculateDistance_haversine:
  "calculateDistance lat1 lng1 lat2 lng2 = haversineDistance lat1 lng1 lat2 lng2"
proof -
  define a where "a = sin (deg2rad (lat2 - lat1) / 2) * sin (deg2rad (lat2 - lat1) / 2) +
              cos (deg2rad lat1) * cos (deg2rad lat2) *
              sin (deg2rad (lng2 - lng1) / 2) * sin (deg2rad (lng2 - lng1) / 2)"
  have d: "deg2rad (x - y) = deg2rad x - deg2rad y" for x y
    by (simp add: deg2rad_def left_diff_distrib)
  have b: "0 \<le> a \<and> a \<le> 1"
    unfolding a_def d by (rule haversine_arg_bounds)
  have "calculateDistance lat1 lng1 lat2 lng2 = 6371 * (2 * atan2 (sqrt a) (sqrt (1 - a)))"
    by (simp only: calculateDistance_def Let_def a_def)
  also have "\<dots> = 6371 * (2 * arcsin (sqrt a))"
    using b by (simp add: atan2_arcsin)
  also have "a = haversine (deg2rad lat2 - deg2rad lat1) +
                   cos (deg2rad lat1) * cos (deg2rad lat2) *
                   haversine (deg2rad lng2 - deg2rad lng1)"
    by (simp add: a_def haversine_def d power2_eq_square)
  finally show ?thesis by (simp add: haversineDistance_def)
qed

text \<open>
  C7. \<open>isMonsterNearby\<close> is false while the user location is unresolved; with a location
  it is true iff the haversine great-circle distance (radius 6371 km) between the user
  and the monster is at most 0.05 km.
\<close>

theorem isMonsterNearby_haversine:
  "isMonsterNearby None monsterLat monsterLng = False \<and>
   isMonsterNearby (Some u) monsterLat monsterLng =
     (haversineDistance (lat u) (lng u) monsterLat monsterLng \<le> 0.05)"
  by (simp add: isMonsterNearby_def calculateDistance_haversine)

theorem isMonsterNearby_haversine_witness:
  "\<not> isMonsterNearby None 37.602 127.015 \<and>
   isMonsterNearby (Some defaultLocation) 37.602 127.015 \<and>
   \<not> isMonsterNearby (Some defaultLocation) (- 52.398) 127.015"
proof -
  have near: "haversineDistance 37.602 127.015 37.602 127.015 = 0"
    using calculateDistance_haversine [of "37.602" "127.015" "37.602" "127.015"]
    by (simp add: calculateDistance_same)
  have "haversineDistance 37.602 127.015 (- 52.398) 127.015 = 6371 * (pi / 2)"
    using calculateDistance_haversine [of "37.602" "127.015" "- 52.398" "127.015"]
      calculateDistance_quarter [of "- 52.398" "37.602" "127.015"]
    by simp
  moreover have "(1::real) \<le> 6371 * (pi / 2)"
    using pi_ge_two by simp
  ultimately have far: "\<not> haversineDistance 37.602 127.015 (- 52.398) 127.015 \<le> 0.05"
    by simp
  show ?thesis
    using isMonsterNearby_haversine [of "37.602" "127.015" defaultLocation]
      isMonsterNearby_haversine [of "- 52.398" "127.015" defaultLocation] near far
    by (simp add: defaultLocation_def)
qed

subsection \<open>Environment score\<close>

lemma foldl_severity:
  "foldl (\<lambda>total spot. if hs_level spot = High then total + 3
                        else if hs_level spot = Medium then total + 2
                        else total + 1) acc hs = acc + hotspotSeverity hs"
proof (induction hs arbitrary: acc)
  case Nil
  show ?case by (simp add: hotspotSeverity_def)
next
  case (Cons h hs)
  show ?case
    by (cases "hs_level h") (simp_all add: Cons.IH hotspotSeverity_def severityWeight_def)
qed

lemma calculateEnvironmentScore_spec:
  "calculateEnvironmentScore hs ms = environmentScore hs ms"
  by (simp add: calculateEnvironmentScore_def environmentScore_def foldl_severity Let_def
      Math_round_def round_def captureRate_def)

lemma hotspotSeverity_nonneg: "0 \<le> hotspotSeverity hs"
proof -
  have "0 \<le> severityWeight l" for l
    by (cases l) (simp_all add: severityWeight_def)
  then show ?thesis
    unfolding hotspotSeverity_def by (induction hs) simp_all
qed

lemma captureRate_bounds: "0 \<le> captureRate ms \<and> captureRate ms \<le> 1"
proof (cases "ms = []")
  case True
  then show ?thesis by (simp add: captureRate_def)
next
  case False
  then have "0 < real (length ms)" by simp
  moreover have "real (length (filter captured ms)) \<le> real (length ms)" by simp
  ultimately show ?thesis using False by (simp add: captureRate_def)
qed

lemma environmentScore_le_100: "calculateEnvironmentScore hs ms \<le> 100"
proof -
  have "(100 - hotspotSeverity hs * 5) * 0.6 + captureRate ms * 100 * 0.4 \<le> 100"
  proof -
    have "(100 - hotspotSeverity hs * 5) * 0.6 \<le> 60"
      using hotspotSeverity_nonneg[of hs] by simp
    moreover have "captureRate ms * 100 * 0.4 \<le> 40"
      using captureRate_bounds[of ms] by simp
    ultimately show ?thesis by linarith
  qed
  then have "round ((100 - hotspotSeverity hs * 5) * 0.6 + captureRate ms * 100 * 0.4)
             \<le> round (100 :: real)"
    by (rule round_mono)
  then show ?thesis
    by (simp add: calculateEnvironmentScore_spec environmentScore_def)
qed

lemma sevenHigh_score: "calculateEnvironmentScore sevenHigh [] = - 3"
proof -
  have "hotspotSeverity sevenHigh = 21"
    by (simp add: sevenHigh_def hotspotSeverity_def severityWeight_def)
  then have "(100 - hotspotSeverity sevenHigh * 5) * 0.6 + captureRate [] * 100 * 0.4 = - 3"
    by (simp add: captureRate_def)
  then show ?thesis
    by (simp add: calculateEnvironmentScore_spec environmentScore_def)
qed

text \<open>
  C8, amended. The score is a function of the current hotspots and monsters:
  \<open>round ((100 - hotspotSeverity * 5) * 0.6 + captureRate * 100 * 0.4)\<close>, with the capture
  rate 0 when there are no monsters. It is not clamped and can be negative (seven high
  hotspots and no monsters give -3), but it never exceeds 100.
\<close>

theorem environment_score:
  "calculateEnvironmentScore hs ms =
     round ((100 - hotspotSeverity hs * 5) * 0.6 + captureRate ms * 100 * 0.4) \<and>
   captureRate [] = 0 \<and>
   calculateEnvironmentScore hs ms \<le> 100 \<and>
   calculateEnvironmentScore sevenHigh [] = - 3"
  using calculateEnvironmentScore_spec[of hs ms] environmentScore_le_100[of hs ms] sevenHigh_score
  by (simp add: environmentScore_def captureRate_def)

theorem environment_score_witness:
  "calculateEnvironmentScore (hotspots initialState) (monsters initialState) = 43"
proof -
  have h: "hotspotSeverity (hotspots initialState) = 8"
    by (simp add: initialState_def hotspotSeverity_def severityWeight_def)
  have c: "captureRate (monsters initialState) = 1 / 6"
    by (simp add: initialState_def captureRate_def)
  have "(100 - 8 * 5) * 0.6 + 1 / 6 * 100 * 0.4 = (128 :: real) / 3" by simp
  moreover have "round ((128 :: real) / 3) = 43" 
    by (simp add: round_def)  
  ultimately show ?thesis
    using environment_score[of "hotspots initialState" "monsters initialState"]
    by (simp add: h c)
qed

text \<open>The claim as stated fails: no input gives a score above 100.\<close>

theorem environment_score_above_100_counterexample:
  "\<not> (\<exists>hs ms. 100 < calculateEnvironmentScore hs ms)"
  using environmentScore_le_100 by (simp add: not_less)

end
